theory Spec2Isabelle
  imports Main "HOL-Library.AList"
begin

section \<open>JavaScript values\<close>

text \<open>
  The query builder is untyped JavaScript: a condition stores whatever the caller passed.
  \<open>jsval\<close> is the universe of those values. \<open>Num\<close> carries an integer-valued number of
  magnitude below \<open>10^21\<close>, the range in which JavaScript writes an integer in plain
  decimal digits (no claim needs fractions or larger numbers), \<open>Obj\<close> a plain object (prototype
  \<open>Object.prototype\<close>) as its own enumerable string-keyed properties in insertion order,
  \<open>Arr\<close> an array without holes, \<open>RegExp\<close> a regular expression by source and flags, and
  \<open>Builtin n\<close> the member \<open>n\<close> that every plain object inherits from \<open>Object.prototype\<close>.
\<close>

datatype jsval =
    Undefined
  | Null
  | Bool bool
  | Num int
  | NaN
  | Str string
  | Arr "jsval list"
  | Obj "(string \<times> jsval) list"
  | RegExp string string
  | Builtin string

datatype error =
    Error string
  | TypeError string
  | SyntaxError string

text \<open>The names a plain object inherits from \<open>Object.prototype\<close>; each is truthy.\<close>

definition Object_prototype :: "string list" where
  "Object_prototype =
     [''constructor'', ''__defineGetter__'', ''__defineSetter__'', ''hasOwnProperty'',
      ''__lookupGetter__'', ''__lookupSetter__'', ''isPrototypeOf'',
      ''propertyIsEnumerable'', ''toString'', ''valueOf'', ''__proto__'',
      ''toLocaleString'']"

fun typeof :: "jsval \<Rightarrow> string" where
  "typeof Undefined = ''undefined''"
| "typeof Null = ''object''"
| "typeof (Bool b) = ''boolean''"
| "typeof (Num n) = ''number''"
| "typeof NaN = ''number''"
| "typeof (Str s) = ''string''"
| "typeof (Arr xs) = ''object''"
| "typeof (Obj ps) = ''object''"
| "typeof (RegExp s f) = ''object''"
| "typeof (Builtin n) = (if n = ''__proto__'' then ''object'' else ''function'')"

text \<open>Truthiness, as \<open>||\<close> tests it.\<close>

fun truthy :: "jsval \<Rightarrow> bool" where
  "truthy Undefined = False"
| "truthy Null = False"
| "truthy (Bool b) = b"
| "truthy (Num n) = (n \<noteq> 0)"
| "truthy NaN = False"
| "truthy (Str s) = (s \<noteq> [])"
| "truthy (Arr xs) = True"
| "truthy (Obj ps) = True"
| "truthy (RegExp s f) = True"
| "truthy (Builtin n) = True"

text \<open>\<open>a || b\<close>\<close>

definition or_else :: "jsval \<Rightarrow> jsval \<Rightarrow> jsval" where
  "or_else a b = (if truthy a then a else b)"

text \<open>Decimal digits of a natural number, and the number a digit string denotes.\<close>

fun nat_digits :: "nat \<Rightarrow> string" where
  "nat_digits n =
     (if n < 10 then [''0123456789'' ! n]
      else nat_digits (n div 10) @ [''0123456789'' ! (n mod 10)])"

declare nat_digits.simps [simp del]

definition is_digit :: "char \<Rightarrow> bool" where
  "is_digit c = (48 \<le> (of_char c :: nat) \<and> (of_char c :: nat) \<le> 57)"

definition digits_value :: "string \<Rightarrow> nat" where
  "digits_value s = foldl (\<lambda>acc c. 10 * acc + ((of_char c :: nat) - 48)) 0 s"

text \<open>
  An array index is a canonical numeric string below \<open>2^32 - 1\<close>. \<open>Object.keys\<close> lists the
  array-index keys of an object first, in ascending numeric order, and then the other
  string keys in insertion order.
\<close>

definition array_index :: "string \<Rightarrow> nat option" where
  "array_index s =
     (if s \<noteq> [] \<and> list_all is_digit s \<and> (s = ''0'' \<or> hd s \<noteq> CHR ''0'')
         \<and> digits_value s < 4294967295
      then Some (digits_value s) else None)"

definition own_keys :: "(string \<times> jsval) list \<Rightarrow> string list" where
  "own_keys props =
     (let ks = map fst props in
      sort_key (\<lambda>k. the (array_index k)) (filter (\<lambda>k. array_index k \<noteq> None) ks)
        @ filter (\<lambda>k. array_index k = None) ks)"

text \<open>
  \<open>String(v)\<close>, which is also how a value becomes a property key. A number is written in
  decimal digits, which is JavaScript's text for the integers \<open>Num\<close> carries (from \<open>10^21\<close> on
  JavaScript writes an exponent, which is outside this model); the text of a built-in
  function is the engine's.
\<close>

fun toString :: "jsval \<Rightarrow> string" where
  "toString Undefined = ''undefined''"
| "toString Null = ''null''"
| "toString (Bool b) = (if b then ''true'' else ''false'')"
| "toString (Num n) =
     (if n < 0 then CHR ''-'' # nat_digits (nat (- n)) else nat_digits (nat n))"
| "toString NaN = ''NaN''"
| "toString (Str s) = s"
| "toString (Arr []) = []"
| "toString (Arr (x # xs)) =
     (case x of Undefined \<Rightarrow> [] | Null \<Rightarrow> [] | _ \<Rightarrow> toString x)
       @ (if xs = [] then [] else CHR '','' # toString (Arr xs))"
| "toString (Obj ps) = ''[object Object]''"
| "toString (RegExp s f) = ''/'' @ s @ ''/'' @ f"
| "toString (Builtin n) =
     (if n = ''__proto__'' then ''[object Object]''
      else if n = ''constructor'' then ''function Object() { [native code] }''
      else ''function '' @ n @ ''() { [native code] }'')"

text \<open>
  \<open>obj[key]\<close> on a plain object: an own property, else what \<open>Object.prototype\<close> provides,
  else \<open>undefined\<close>.
\<close>

definition get_prop :: "(string \<times> jsval) list \<Rightarrow> string \<Rightarrow> jsval" where
  "get_prop props key =
     (case map_of props key of
        Some v \<Rightarrow> v
      | None \<Rightarrow> if key \<in> set Object_prototype then Builtin key else Undefined)"

text \<open>
  \<open>Object.keys(v)\<close>: a TypeError on \<open>null\<close> and \<open>undefined\<close>, the indices of an array or a
  string, the own keys of a plain object, nothing otherwise.
\<close>

fun Object_keys :: "jsval \<Rightarrow> error + string list" where
  "Object_keys Undefined = Inl (TypeError ''Cannot convert undefined or null to object'')"
| "Object_keys Null = Inl (TypeError ''Cannot convert undefined or null to object'')"
| "Object_keys (Arr xs) = Inr (map nat_digits [0..<length xs])"
| "Object_keys (Str s) = Inr (map nat_digits [0..<length s])"
| "Object_keys (Obj ps) = Inr (own_keys ps)"
| "Object_keys v = Inr []"

text \<open>\<open>v[key]\<close> for a key that \<open>Object.keys(v)\<close> listed.\<close>

fun own_value :: "jsval \<Rightarrow> string \<Rightarrow> jsval" where
  "own_value (Obj ps) key = get_prop ps key"
| "own_value (Arr xs) key =
     (case array_index key of
        Some i \<Rightarrow> if i < length xs then xs ! i else Undefined
      | None \<Rightarrow> Undefined)"
| "own_value v key = Undefined"

text \<open>
  \<open>v.key\<close> for one of the result members the adapters read (\<open>ops\<close>, \<open>insertedId\<close>,
  \<open>modifiedCount\<close>, \<open>deletedCount\<close>, \<open>count\<close>), none of which a built-in prototype
  defines: a TypeError on \<open>null\<close> and \<open>undefined\<close>.
\<close>

fun read_member :: "jsval \<Rightarrow> string \<Rightarrow> error + jsval" where
  "read_member Undefined key = Inl (TypeError (''Cannot read properties of undefined''))"
| "read_member Null key = Inl (TypeError (''Cannot read properties of null''))"
| "read_member (Obj ps) key = Inr (get_prop ps key)"
| "read_member v key = Inr Undefined"

text \<open>\<open>xs[0]\<close> on an array: \<open>undefined\<close> when it is empty.\<close>

definition first_elem :: "jsval list \<Rightarrow> jsval" where
  "first_elem xs = (case xs of [] \<Rightarrow> Undefined | x # _ \<Rightarrow> x)"

text \<open>\<open>xs.flat()\<close>: one level of array nesting is removed.\<close>

definition flat :: "jsval list \<Rightarrow> jsval list" where
  "flat xs = concat (map (\<lambda>x. case x of Arr ys \<Rightarrow> ys | _ \<Rightarrow> [x]) xs)"

text \<open>\<open>s.replace(/%/g, '.*')\<close>\<close>

definition replace_percent :: "string \<Rightarrow> string" where
  "replace_percent s = concat (map (\<lambda>c. if c = CHR ''%'' then ''.*'' else [c]) s)"

text \<open>\<open>s.toLowerCase()\<close> on ASCII text.\<close>

definition toLowerCase :: "string \<Rightarrow> string" where
  "toLowerCase s =
     map (\<lambda>c. if 65 \<le> (of_char c :: nat) \<and> (of_char c :: nat) \<le> 90
              then char_of ((of_char c :: nat) + 32) else c) s"

text \<open>The \<open>i\<close>-th positional argument of a call; a parameter not supplied is \<open>undefined\<close>.\<close>

definition arg :: "jsval list \<Rightarrow> nat \<Rightarrow> jsval" where
  "arg args i = (if i < length args then args ! i else Undefined)"

section \<open>Data model\<close>

text \<open>A condition is the object \<open>{field, operator, value}\<close> that the builder pushes.\<close>

record Condition =
  field :: jsval
  operator :: jsval
  "value" :: jsval

text \<open>
  An object the adapters create with \<open>{}\<close> and fill by \<open>obj[key] = v\<close>: its own properties
  in insertion order, and its prototype once an assignment to \<open>__proto__\<close> has replaced
  \<open>Object.prototype\<close> (\<open>None\<close>) by another object.
\<close>

record js_object =
  own :: "(string \<times> jsval) list"
  proto :: "jsval option"

definition empty_object :: js_object where
  "empty_object = \<lparr>own = [], proto = None\<rparr>"

text \<open>
  \<open>obj[key] = v\<close> for an object \<open>v\<close>: the key \<open>__proto__\<close> is the inherited setter, which
  makes \<open>v\<close> the prototype and adds no own property; any other key is overwritten in place
  or appended.
\<close>

definition assign_object :: "js_object \<Rightarrow> string \<Rightarrow> jsval \<Rightarrow> js_object" where
  "assign_object obj key v =
     (if key = ''__proto__'' then obj\<lparr>proto := Some v\<rparr>
      else obj\<lparr>own := AList.update key v (own obj)\<rparr>)"

text \<open>
  \<open>obj[key] = v\<close> for a primitive \<open>v\<close> (a number or a string) on an object whose prototype
  is \<open>Object.prototype\<close>: the \<open>__proto__\<close> setter ignores a primitive.
\<close>

definition assign_primitive ::
  "(string \<times> jsval) list \<Rightarrow> string \<Rightarrow> jsval \<Rightarrow> (string \<times> jsval) list" where
  "assign_primitive props key v =
     (if key = ''__proto__'' then props else AList.update key v props)"


text \<open>The options object of \<open>collection.find(filter, options)\<close>; an absent member is \<open>None\<close>.\<close>

record find_options =
  projection :: "(string \<times> jsval) list option"
  sort_option :: "(string \<times> jsval) list option"
  limit_option :: "jsval option"
  skip_option :: "jsval option"

text \<open>
  The document-store client is an external collaborator: a collection handle is the
  operations the adapter calls on it, each returning what the awaited call settles to.
\<close>

record collection =
  coll_find :: "js_object \<Rightarrow> find_options \<Rightarrow> error + jsval list"
  coll_insertMany :: "jsval \<Rightarrow> error + jsval"
  coll_insertOne :: "jsval \<Rightarrow> error + jsval"
  coll_updateMany :: "js_object \<Rightarrow> jsval \<Rightarrow> error + jsval"
  coll_deleteMany :: "js_object \<Rightarrow> error + jsval"
  coll_countDocuments :: "js_object \<Rightarrow> error + jsval"

text \<open>\<open>fastify.mongoose\<close>: \<open>connection.db\<close> is absent until the connection is open.\<close>

record mongoose =
  connection_db :: "(jsval \<Rightarrow> collection) option"

text \<open>
  A Knex query is the table it started from and the chain of builder methods called on it.
  The relational client executes such a chain (\<open>await query\<close>) or renders it
  (\<open>query.toString()\<close>).
\<close>

datatype knex_call =
    Where jsval jsval jsval
  | WhereIn jsval jsval
  | WhereNotIn jsval jsval
  | Select "jsval list"
  | OrderBy string jsval
  | Limit jsval
  | Offset jsval
  | Insert jsval
  | Returning jsval
  | Update jsval
  | Delete
  | Count jsval

record knex_query =
  from_table :: jsval
  calls :: "knex_call list"

record knex_client =
  await :: "knex_query \<Rightarrow> error + jsval"
  render :: "knex_query \<Rightarrow> error + string"

definition call :: "knex_query \<Rightarrow> knex_call \<Rightarrow> knex_query" where
  "call query c = query\<lparr>calls := calls query @ [c]\<rparr>"

text \<open>The \<open>fastify\<close> instance as the adapters see it: its two decorators, when registered.\<close>

record fastify =
  fastify_mongoose :: "mongoose option"
  fastify_knex :: "(string \<Rightarrow> knex_client option) option"

text \<open>
  What the code reads from its runtime and not from its arguments: two environment
  variables, whether \<open>new RegExp(source, 'i')\<close> accepts a source, and \<open>parseInt(v, 10)\<close>.
\<close>

record runtime =
  env_DB_ENGINE :: "string option"
  env_DB_DECORATOR :: "string option"
  regexp_accepts :: "string \<Rightarrow> bool"
  parseInt10 :: "jsval \<Rightarrow> jsval"

record MongoAdapter =
  ma_fastify :: fastify

record KnexAdapter =
  ka_fastify :: fastify
  ka_dbEngine :: jsval
  ka_knex :: knex_client

datatype adapter = Mongo MongoAdapter | Knex KnexAdapter

record QueryBuilder =
  qb_fastify :: fastify
  options :: "(string \<times> jsval) list"
  table :: jsval
  collection :: jsval
  conditions :: "Condition list"
  qb_fields :: "jsval list"
  sorts :: "(string \<times> jsval) list"
  limitValue :: jsval
  skipValue :: jsval
  adapter :: adapter
  dbEngine :: jsval

section \<open>The builder (lib/queryBuilder.js)\<close>

definition MongoAdapter_new :: "fastify \<Rightarrow> error + MongoAdapter" where
  "MongoAdapter_new fy =
     (case fastify_mongoose fy of
        None \<Rightarrow> Inl (Error ''Mongoose instance tidak ditemukan di fastify'')
      | Some m \<Rightarrow> Inr \<lparr>ma_fastify = fy\<rparr>)"

text \<open>\<open>process.env.DB_DECORATOR || 'db'\<close>\<close>

definition decorator_name :: "runtime \<Rightarrow> string" where
  "decorator_name rt =
     (case env_DB_DECORATOR rt of
        None \<Rightarrow> ''db''
      | Some s \<Rightarrow> if s = [] then ''db'' else s)"

definition KnexAdapter_new :: "runtime \<Rightarrow> fastify \<Rightarrow> jsval \<Rightarrow> error + KnexAdapter" where
  "KnexAdapter_new rt fy engine =
     (case fastify_knex fy of
        None \<Rightarrow> Inl (Error ''Knex instance tidak ditemukan di fastify'')
      | Some decorators \<Rightarrow>
          (case decorators (decorator_name rt) of
             None \<Rightarrow> Inl (Error ''Knex instance tidak ditemukan di fastify'')
           | Some k \<Rightarrow>
               Inr \<lparr>ka_fastify = fy, ka_dbEngine = or_else engine (Str ''pg''), ka_knex = k\<rparr>))"

definition initAdapter :: "runtime \<Rightarrow> fastify \<Rightarrow> jsval \<Rightarrow> error + adapter" where
  "initAdapter rt fy engine =
     (if engine = Str ''mongodb'' \<or> engine = Str ''mongo''
      then map_sum id Mongo (MongoAdapter_new fy)
      else map_sum id Knex (KnexAdapter_new rt fy engine))"

text \<open>\<open>options.dbEngine || process.env.DB_ENGINE || 'pg'\<close>\<close>

definition effective_engine :: "runtime \<Rightarrow> (string \<times> jsval) list \<Rightarrow> jsval" where
  "effective_engine rt opts =
     or_else
       (or_else (get_prop opts ''dbEngine'')
          (case env_DB_ENGINE rt of None \<Rightarrow> Undefined | Some s \<Rightarrow> Str s))
       (Str ''pg'')"

definition QueryBuilder_new ::
  "runtime \<Rightarrow> fastify \<Rightarrow> (string \<times> jsval) list \<Rightarrow> error + QueryBuilder" where
  "QueryBuilder_new rt fy opts =
     (case initAdapter rt fy (effective_engine rt opts) of
        Inl e \<Rightarrow> Inl e
      | Inr a \<Rightarrow>
          Inr \<lparr>qb_fastify = fy, options = opts, table = Null, collection = Null,
               conditions = [], qb_fields = [], sorts = [], limitValue = Null,
               skipValue = Null, adapter = a, dbEngine = effective_engine rt opts\<rparr>)"

definition QueryBuilder_from :: "jsval \<Rightarrow> QueryBuilder \<Rightarrow> QueryBuilder" where
  "QueryBuilder_from tableName b = b\<lparr>table := tableName, collection := tableName\<rparr>"

definition push :: "Condition \<Rightarrow> QueryBuilder \<Rightarrow> QueryBuilder" where
  "push c b = b\<lparr>conditions := conditions b @ [c]\<rparr>"

text \<open>
  \<open>where(field, operator, value)\<close>, applied to the positional arguments of the call. The
  branch taken depends on \<open>typeof field\<close> and on whether \<open>value\<close> is \<open>undefined\<close>;
  \<open>Object.keys\<close> throws on \<open>null\<close>, whose \<open>typeof\<close> is \<open>'object'\<close> too.
\<close>

definition QueryBuilder_where :: "jsval list \<Rightarrow> QueryBuilder \<Rightarrow> error + QueryBuilder" where
  "QueryBuilder_where args b =
     (let field' = arg args 0; operator' = arg args 1; value' = arg args 2 in
      if typeof field' = ''object'' then
        (case Object_keys field' of
           Inl e \<Rightarrow> Inl e
         | Inr keys \<Rightarrow>
             Inr (foldl (\<lambda>b key. push \<lparr>field = Str key, operator = Str ''='',
                                        value = own_value field' key\<rparr> b) b keys))
      else if value' = Undefined then
        Inr (push \<lparr>field = field', operator = Str ''='', value = operator'\<rparr> b)
      else
        Inr (push \<lparr>field = field', operator = operator', value = value'\<rparr> b))"

definition QueryBuilder_whereIn :: "jsval \<Rightarrow> jsval \<Rightarrow> QueryBuilder \<Rightarrow> QueryBuilder" where
  "QueryBuilder_whereIn field' values b =
     push \<lparr>field = field', operator = Str ''in'', value = values\<rparr> b"

definition QueryBuilder_whereNotIn :: "jsval \<Rightarrow> jsval \<Rightarrow> QueryBuilder \<Rightarrow> QueryBuilder" where
  "QueryBuilder_whereNotIn field' values b =
     push \<lparr>field = field', operator = Str ''not in'', value = values\<rparr> b"

definition QueryBuilder_whereLike :: "jsval \<Rightarrow> jsval \<Rightarrow> QueryBuilder \<Rightarrow> QueryBuilder" where
  "QueryBuilder_whereLike field' value' b =
     push \<lparr>field = field', operator = Str ''like'', value = value'\<rparr> b"

text \<open>\<open>select(...fields)\<close>, applied to the list of its arguments.\<close>

definition QueryBuilder_select :: "jsval list \<Rightarrow> QueryBuilder \<Rightarrow> QueryBuilder" where
  "QueryBuilder_select args b = b\<lparr>qb_fields := flat args\<rparr>"

text \<open>
  \<open>orderBy(field, direction = 'asc')\<close>: the default replaces an \<open>undefined\<close> direction, and
  \<open>toLowerCase\<close> exists on strings only.
\<close>

definition QueryBuilder_orderBy :: "jsval \<Rightarrow> jsval \<Rightarrow> QueryBuilder \<Rightarrow> error + QueryBuilder" where
  "QueryBuilder_orderBy field' direction b =
     (case (if direction = Undefined then Str ''asc'' else direction) of
        Str d \<Rightarrow>
          Inr (b\<lparr>sorts := assign_primitive (sorts b) (toString field') (Str (toLowerCase d))\<rparr>)
      | _ \<Rightarrow> Inl (TypeError ''direction.toLowerCase is not a function''))"

definition QueryBuilder_limit :: "jsval \<Rightarrow> QueryBuilder \<Rightarrow> QueryBuilder" where
  "QueryBuilder_limit n b = b\<lparr>limitValue := n\<rparr>"

definition QueryBuilder_skip :: "jsval \<Rightarrow> QueryBuilder \<Rightarrow> QueryBuilder" where
  "QueryBuilder_skip n b = b\<lparr>skipValue := n\<rparr>"

definition QueryBuilder_offset :: "jsval \<Rightarrow> QueryBuilder \<Rightarrow> QueryBuilder" where
  "QueryBuilder_offset n b = QueryBuilder_skip n b"

section \<open>The document adapter (lib/adapters/mongoAdapter.js)\<close>

definition operatorMap :: "(string \<times> jsval) list" where
  "operatorMap =
     [(''='', Str ''$eq''), (''!='', Str ''$ne''), (''<>'', Str ''$ne''),
      (''>'', Str ''$gt''), (''>='', Str ''$gte''), (''<'', Str ''$lt''),
      (''<='', Str ''$lte''), (''like'', Str ''$regex''), (''in'', Str ''$in''),
      (''not in'', Str ''$nin'')]"

text \<open>\<open>operatorMap[operator] || '$eq'\<close>: the lookup is a property read on a plain object.\<close>

definition convertOperator :: "jsval \<Rightarrow> jsval" where
  "convertOperator operator' = or_else (get_prop operatorMap (toString operator')) (Str ''$eq'')"

text \<open>
  The body of the \<open>forEach\<close> in \<open>_buildFilter\<close>. The clause \<open>{ [mongoOperator]: v }\<close> is an object
  with one own property; \<open>new RegExp\<close> throws a SyntaxError on a source it does not accept.
\<close>

definition filter_condition :: "runtime \<Rightarrow> js_object \<Rightarrow> Condition \<Rightarrow> error + js_object" where
  "filter_condition rt filter' condition =
     (let mongoOperator = convertOperator (operator condition) in
      if mongoOperator = Str ''$regex'' \<and> typeof (value condition) = ''string'' then
        (let regexValue = replace_percent (toString (value condition)) in
         if regexp_accepts rt regexValue then
           Inr (assign_object filter' (toString (field condition))
                  (Obj [(toString mongoOperator, RegExp regexValue ''i'')]))
         else Inl (SyntaxError ''Invalid regular expression''))
      else
        Inr (assign_object filter' (toString (field condition))
               (Obj [(toString mongoOperator, value condition)])))"

fun filter_conditions :: "runtime \<Rightarrow> js_object \<Rightarrow> Condition list \<Rightarrow> error + js_object" where
  "filter_conditions rt filter' [] = Inr filter'"
| "filter_conditions rt filter' (condition # rest) =
     (case filter_condition rt filter' condition of
        Inl e \<Rightarrow> Inl e
      | Inr filter'' \<Rightarrow> filter_conditions rt filter'' rest)"

definition MongoAdapter_buildFilter :: "runtime \<Rightarrow> Condition list \<Rightarrow> error + js_object" where
  "MongoAdapter_buildFilter rt conds = filter_conditions rt empty_object conds"

definition MongoAdapter_buildOptions :: "QueryBuilder \<Rightarrow> find_options" where
  "MongoAdapter_buildOptions builder =
     \<lparr>projection =
        (if length (qb_fields builder) > 0
         then Some (foldl (\<lambda>p f. assign_primitive p (toString f) (Num 1)) [] (qb_fields builder))
         else None),
      sort_option =
        (if length (own_keys (sorts builder)) > 0
         then Some (foldl (\<lambda>srt f. assign_primitive srt f
                             (if get_prop (sorts builder) f = Str ''asc'' then Num 1 else Num (- 1)))
                      [] (own_keys (sorts builder)))
         else None),
      limit_option = (if limitValue builder \<noteq> Null then Some (limitValue builder) else None),
      skip_option = (if skipValue builder \<noteq> Null then Some (skipValue builder) else None)\<rparr>"

text \<open>\<open>this.fastify.mongoose.connection.db.collection(name)\<close>\<close>

definition getCollection :: "MongoAdapter \<Rightarrow> jsval \<Rightarrow> error + collection" where
  "getCollection a collectionName =
     (case fastify_mongoose (ma_fastify a) of
        None \<Rightarrow> Inl (TypeError ''Cannot read properties of undefined (reading connection)'')
      | Some m \<Rightarrow>
          (case connection_db m of
             None \<Rightarrow> Inl (TypeError ''Cannot read properties of undefined (reading collection)'')
           | Some db \<Rightarrow> Inr (db collectionName)))"

definition MongoAdapter_get :: "runtime \<Rightarrow> MongoAdapter \<Rightarrow> QueryBuilder \<Rightarrow> error + jsval" where
  "MongoAdapter_get rt a builder =
     (case getCollection a (collection builder) of
        Inl e \<Rightarrow> Inl e
      | Inr coll \<Rightarrow>
          (case MongoAdapter_buildFilter rt (conditions builder) of
             Inl e \<Rightarrow> Inl e
           | Inr filter' \<Rightarrow>
               map_sum id Arr (coll_find coll filter' (MongoAdapter_buildOptions builder))))"

text \<open>\<open>v[0]\<close> on a value that is neither \<open>null\<close> nor \<open>undefined\<close>, and on any value.\<close>

fun element0 :: "jsval \<Rightarrow> jsval" where
  "element0 (Arr xs) = first_elem xs"
| "element0 (Str s) = (case s of [] \<Rightarrow> Undefined | c # _ \<Rightarrow> Str [c])"
| "element0 (Obj ps) = get_prop ps ''0''"
| "element0 v = Undefined"

definition index0 :: "jsval \<Rightarrow> error + jsval" where
  "index0 v =
     (if v = Undefined \<or> v = Null then Inl (TypeError ''Cannot read properties (reading 0)'')
      else Inr (element0 v))"

text \<open>\<open>{ ...data }\<close>: the own enumerable properties of \<open>data\<close>, in key order.\<close>

fun spread :: "jsval \<Rightarrow> (string \<times> jsval) list" where
  "spread (Obj ps) = map (\<lambda>k. (k, get_prop ps k)) (own_keys ps)"
| "spread (Arr xs) = map (\<lambda>i. (nat_digits i, xs ! i)) [0..<length xs]"
| "spread (Str s) = map (\<lambda>i. (nat_digits i, Str [s ! i])) [0..<length s]"
| "spread v = []"

definition is_Array :: "jsval \<Rightarrow> bool" where
  "is_Array v = (case v of Arr xs \<Rightarrow> True | _ \<Rightarrow> False)"

definition MongoAdapter_insert :: "MongoAdapter \<Rightarrow> QueryBuilder \<Rightarrow> jsval \<Rightarrow> error + jsval" where
  "MongoAdapter_insert a builder data =
     (case getCollection a (collection builder) of
        Inl e \<Rightarrow> Inl e
      | Inr coll \<Rightarrow>
          if is_Array data then
            (case coll_insertMany coll data of
               Inl e \<Rightarrow> Inl e
             | Inr result \<Rightarrow>
                 (case read_member result ''ops'' of
                    Inl e \<Rightarrow> Inl e
                  | Inr ops \<Rightarrow> Inr (or_else ops data)))
          else
            (case coll_insertOne coll data of
               Inl e \<Rightarrow> Inl e
             | Inr result \<Rightarrow>
                 (case read_member result ''ops'' of
                    Inl e \<Rightarrow> Inl e
                  | Inr ops \<Rightarrow>
                      (let ops0 = (if ops = Undefined \<or> ops = Null then Undefined
                                   else element0 ops) in
                       if truthy ops0 then Inr ops0
                       else
                         (case read_member result ''insertedId'' of
                            Inl e \<Rightarrow> Inl e
                          | Inr insertedId \<Rightarrow>
                              Inr (Obj (AList.update ''_id'' insertedId (spread data))))))))"

definition MongoAdapter_update :: "runtime \<Rightarrow> MongoAdapter \<Rightarrow> QueryBuilder \<Rightarrow> jsval \<Rightarrow> error + jsval" where
  "MongoAdapter_update rt a builder data =
     (case getCollection a (collection builder) of
        Inl e \<Rightarrow> Inl e
      | Inr coll \<Rightarrow>
          (case MongoAdapter_buildFilter rt (conditions builder) of
             Inl e \<Rightarrow> Inl e
           | Inr filter' \<Rightarrow>
               (case coll_updateMany coll filter' (Obj [(''$set'', data)]) of
                  Inl e \<Rightarrow> Inl e
                | Inr result \<Rightarrow>
                    (case read_member result ''modifiedCount'' of
                       Inl e \<Rightarrow> Inl e
                     | Inr n \<Rightarrow> Inr (or_else n (Num 0))))))"

definition MongoAdapter_delete :: "runtime \<Rightarrow> MongoAdapter \<Rightarrow> QueryBuilder \<Rightarrow> error + jsval" where
  "MongoAdapter_delete rt a builder =
     (case getCollection a (collection builder) of
        Inl e \<Rightarrow> Inl e
      | Inr coll \<Rightarrow>
          (case MongoAdapter_buildFilter rt (conditions builder) of
             Inl e \<Rightarrow> Inl e
           | Inr filter' \<Rightarrow>
               (case coll_deleteMany coll filter' of
                  Inl e \<Rightarrow> Inl e
                | Inr result \<Rightarrow>
                    (case read_member result ''deletedCount'' of
                       Inl e \<Rightarrow> Inl e
                     | Inr n \<Rightarrow> Inr (or_else n (Num 0))))))"

text \<open>\<open>count(builder)\<close> declares no second parameter: the field the builder passes is dropped.\<close>

definition MongoAdapter_count :: "runtime \<Rightarrow> MongoAdapter \<Rightarrow> QueryBuilder \<Rightarrow> error + jsval" where
  "MongoAdapter_count rt a builder =
     (case getCollection a (collection builder) of
        Inl e \<Rightarrow> Inl e
      | Inr coll \<Rightarrow>
          (case MongoAdapter_buildFilter rt (conditions builder) of
             Inl e \<Rightarrow> Inl e
           | Inr filter' \<Rightarrow> coll_countDocuments coll filter'))"

section \<open>The relational adapter (lib/adapters/knexAdapter.js)\<close>

text \<open>The \<open>switch (operator)\<close> of \<open>_buildQuery\<close>: the builder method one condition becomes.\<close>

definition condition_call :: "Condition \<Rightarrow> knex_call" where
  "condition_call condition =
     (if operator condition = Str ''in'' then WhereIn (field condition) (value condition)
      else if operator condition = Str ''not in'' then
        WhereNotIn (field condition) (value condition)
      else if operator condition = Str ''like'' then
        Where (field condition) (Str ''like'') (value condition)
      else Where (field condition) (operator condition) (value condition))"

definition KnexAdapter_buildQuery :: "KnexAdapter \<Rightarrow> QueryBuilder \<Rightarrow> knex_query" where
  "KnexAdapter_buildQuery a builder =
     (let query0 = \<lparr>from_table = table builder, calls = []\<rparr>;
          query1 = (if length (conditions builder) > 0
                    then foldl (\<lambda>q c. call q (condition_call c)) query0 (conditions builder)
                    else query0);
          query2 = (if length (qb_fields builder) > 0
                    then call query1 (Select (qb_fields builder)) else query1);
          query3 = (if length (own_keys (sorts builder)) > 0
                    then foldl (\<lambda>q f. call q (OrderBy f (get_prop (sorts builder) f)))
                           query2 (own_keys (sorts builder))
                    else query2);
          query4 = (if limitValue builder \<noteq> Null
                    then call query3 (Limit (limitValue builder)) else query3);
          query5 = (if skipValue builder \<noteq> Null
                    then call query4 (Offset (skipValue builder)) else query4)
      in query5)"

definition KnexAdapter_get :: "KnexAdapter \<Rightarrow> QueryBuilder \<Rightarrow> error + jsval" where
  "KnexAdapter_get a builder = await (ka_knex a) (KnexAdapter_buildQuery a builder)"

text \<open>Both branches of \<open>insert\<close> make the same calls.\<close>

definition KnexAdapter_insert :: "KnexAdapter \<Rightarrow> QueryBuilder \<Rightarrow> jsval \<Rightarrow> error + jsval" where
  "KnexAdapter_insert a builder data =
     (let query = \<lparr>from_table = table builder, calls = []\<rparr> in
      if is_Array data then await (ka_knex a) (call (call query (Insert data)) (Returning (Str ''*'')))
      else await (ka_knex a) (call (call query (Insert data)) (Returning (Str ''*''))))"

definition KnexAdapter_update :: "KnexAdapter \<Rightarrow> QueryBuilder \<Rightarrow> jsval \<Rightarrow> error + jsval" where
  "KnexAdapter_update a builder data =
     await (ka_knex a) (call (KnexAdapter_buildQuery a builder) (Update data))"

definition KnexAdapter_delete :: "KnexAdapter \<Rightarrow> QueryBuilder \<Rightarrow> error + jsval" where
  "KnexAdapter_delete a builder =
     await (ka_knex a) (call (KnexAdapter_buildQuery a builder) Delete)"

definition KnexAdapter_count ::
  "runtime \<Rightarrow> KnexAdapter \<Rightarrow> QueryBuilder \<Rightarrow> jsval \<Rightarrow> error + jsval" where
  "KnexAdapter_count rt a builder field' =
     (case await (ka_knex a)
             (call (KnexAdapter_buildQuery a builder) (Count (Obj [(''count'', field')]))) of
        Inl e \<Rightarrow> Inl e
      | Inr result \<Rightarrow>
          (case index0 result of
             Inl e \<Rightarrow> Inl e
           | Inr row \<Rightarrow>
               (case read_member row ''count'' of
                  Inl e \<Rightarrow> Inl e
                | Inr n \<Rightarrow> Inr (parseInt10 rt n))))"

section \<open>Execution methods of the builder\<close>

definition adapter_get :: "runtime \<Rightarrow> adapter \<Rightarrow> QueryBuilder \<Rightarrow> error + jsval" where
  "adapter_get rt ad builder =
     (case ad of
        Mongo a \<Rightarrow> MongoAdapter_get rt a builder
      | Knex a \<Rightarrow> KnexAdapter_get a builder)"

definition QueryBuilder_get :: "runtime \<Rightarrow> QueryBuilder \<Rightarrow> error + jsval" where
  "QueryBuilder_get rt b = adapter_get rt (adapter b) b"

text \<open>
  \<open>first\<close> returns its result and the builder it leaves behind. A rejected \<open>await\<close> leaves the
  function at that line; \<open>results[0]\<close> is read after the limit is restored.
\<close>

definition QueryBuilder_first :: "runtime \<Rightarrow> QueryBuilder \<Rightarrow> (error + jsval) \<times> QueryBuilder" where
  "QueryBuilder_first rt b =
     (let originalLimit = limitValue b;
          b1 = b\<lparr>limitValue := Num 1\<rparr> in
      case adapter_get rt (adapter b1) b1 of
        Inl e \<Rightarrow> (Inl e, b1)
      | Inr results \<Rightarrow>
          (let b2 = b1\<lparr>limitValue := originalLimit\<rparr> in
           case index0 results of
             Inl e \<Rightarrow> (Inl e, b2)
           | Inr row \<Rightarrow> (Inr (or_else row Null), b2)))"

definition QueryBuilder_insert :: "QueryBuilder \<Rightarrow> jsval \<Rightarrow> error + jsval" where
  "QueryBuilder_insert b data =
     (case adapter b of
        Mongo a \<Rightarrow> MongoAdapter_insert a b data
      | Knex a \<Rightarrow> KnexAdapter_insert a b data)"

definition QueryBuilder_update :: "runtime \<Rightarrow> QueryBuilder \<Rightarrow> jsval \<Rightarrow> error + jsval" where
  "QueryBuilder_update rt b data =
     (case adapter b of
        Mongo a \<Rightarrow> MongoAdapter_update rt a b data
      | Knex a \<Rightarrow> KnexAdapter_update a b data)"

definition QueryBuilder_delete :: "runtime \<Rightarrow> QueryBuilder \<Rightarrow> error + jsval" where
  "QueryBuilder_delete rt b =
     (case adapter b of
        Mongo a \<Rightarrow> MongoAdapter_delete rt a b
      | Knex a \<Rightarrow> KnexAdapter_delete a b)"

text \<open>\<open>count(field = '*')\<close>, applied to the positional arguments of the call.\<close>

definition QueryBuilder_count :: "runtime \<Rightarrow> jsval list \<Rightarrow> QueryBuilder \<Rightarrow> error + jsval" where
  "QueryBuilder_count rt args b =
     (let field' = (if arg args 0 = Undefined then Str ''*'' else arg args 0) in
      case adapter b of
        Mongo a \<Rightarrow> MongoAdapter_count rt a b
      | Knex a \<Rightarrow> KnexAdapter_count rt a b field')"

text \<open>
  \<open>toSQL\<close> is not \<open>async\<close>: its error is thrown by the call itself, before any use of a
  backend.
\<close>

definition QueryBuilder_toSQL :: "QueryBuilder \<Rightarrow> error + string" where
  "QueryBuilder_toSQL b =
     (case adapter b of
        Knex a \<Rightarrow> render (ka_knex a) (KnexAdapter_buildQuery a b)
      | Mongo a \<Rightarrow> Inl (Error ''toSQL() hanya tersedia untuk SQL database''))"

section \<open>Chaining and the clauses of the filter\<close>

text \<open>A chained call \<open>b.m1(...).m2(...)\<close>: a throw in \<open>m1\<close> ends the chain.\<close>

definition and_then :: "error + 'a \<Rightarrow> ('a \<Rightarrow> error + 'b) \<Rightarrow> error + 'b" where
  "and_then r f = (case r of Inl e \<Rightarrow> Inl e | Inr x \<Rightarrow> f x)"

text \<open>
  The own properties of the object a literal \<open>{k1: v1, ..., kn: vn}\<close> creates: a key written
  twice keeps its first position and its last value, and the key \<open>__proto__\<close> defines no
  property (in a literal it sets the prototype, or is ignored for a primitive value).
\<close>

definition object_literal :: "(string \<times> jsval) list \<Rightarrow> jsval" where
  "object_literal kvs =
     Obj (foldl (\<lambda>ps kv. if fst kv = ''__proto__'' then ps
                          else AList.update (fst kv) (snd kv) ps) [] kvs)"

text \<open>
  Whether \<open>_buildFilter\<close> takes its regular-expression branch for a condition, the clause
  object it stores for the condition when it does not throw, and whether it throws.
\<close>

definition is_pattern :: "Condition \<Rightarrow> bool" where
  "is_pattern c =
     (convertOperator (operator c) = Str ''$regex'' \<and> typeof (value c) = ''string'')"

definition clause_of :: "Condition \<Rightarrow> jsval" where
  "clause_of c =
     (if is_pattern c
      then Obj [(toString (convertOperator (operator c)),
                 RegExp (replace_percent (toString (value c))) ''i'')]
      else Obj [(toString (convertOperator (operator c)), value c)])"

definition pattern_accepted :: "runtime \<Rightarrow> Condition \<Rightarrow> bool" where
  "pattern_accepted rt c =
     (if is_pattern c then regexp_accepts rt (replace_percent (toString (value c))) else True)"

text \<open>
  \<open>stores obj key v\<close>: the assignments so far have left \<open>v\<close> under \<open>key\<close>, as an own property
  or, for the key \<open>__proto__\<close>, as the prototype. \<open>store\<close> is the assignment \<open>_buildFilter\<close>
  makes for a condition it accepts.
\<close>

definition stores :: "js_object \<Rightarrow> string \<Rightarrow> jsval \<Rightarrow> bool" where
  "stores obj key v =
     (if key = ''__proto__'' then proto obj = Some v else map_of (own obj) key = Some v)"

definition store :: "js_object \<Rightarrow> Condition \<Rightarrow> js_object" where
  "store obj c = assign_object obj (toString (field c)) (clause_of c)"



text \<open>
  The error of \<open>toSQL\<close> on a document-store builder. The code has no error classes: what the
  error taxonomy calls UnsupportedOperation is a plain \<open>Error\<close> with this message.
\<close>

definition UnsupportedOperation :: error where
  "UnsupportedOperation = Error ''toSQL() hanya tersedia untuk SQL database''"

text \<open>
  A builder that differs from \<open>b\<close> in nothing but the engine tag: the options it was created
  with, its \<open>dbEngine\<close> and the \<open>dbEngine\<close> its relational adapter stored.
\<close>

definition retag ::
  "(string \<times> jsval) list \<Rightarrow> jsval \<Rightarrow> jsval \<Rightarrow> QueryBuilder \<Rightarrow> QueryBuilder" where
  "retag opts tag stored b =
     b\<lparr>options := opts, dbEngine := tag,
       adapter := (case adapter b of
                    Knex a \<Rightarrow> Knex (a\<lparr>ka_dbEngine := stored\<rparr>)
                  | Mongo a \<Rightarrow> Mongo a)\<rparr>"

section \<open>Sample collaborators\<close>

text \<open>
  Concrete backends and builders on which the theorems below are instantiated. The sample
  document store reads the own properties of the filter it is given, as a driver that
  serialises the filter does: it answers a filter with an own entry \<open>{$in: []}\<close> by no
  documents and any other filter by two documents. The sample relational client answers a
  query with a \<open>whereIn\<close> call on an empty list by no rows and any other query by two rows.
\<close>

definition sample_rows :: "jsval list" where
  "sample_rows =
     [Obj [(''id'', Num 1), (''role'', Str ''admin'')],
      Obj [(''id'', Num 2), (''role'', Str ''user'')]]"

definition empty_membership :: "js_object \<Rightarrow> bool" where
  "empty_membership flt = list_ex (\<lambda>kv. snd kv = Obj [(''$in'', Arr [])]) (own flt)"

definition empty_whereIn :: "knex_query \<Rightarrow> bool" where
  "empty_whereIn q =
     list_ex (\<lambda>c. case c of WhereIn f vs \<Rightarrow> vs = Arr [] | _ \<Rightarrow> False) (calls q)"

definition sample_collection :: collection where
  "sample_collection =
     \<lparr>coll_find = (\<lambda>flt opts. if empty_membership flt then Inr [] else Inr sample_rows),
      coll_insertMany = (\<lambda>data. Inr (Obj [])),
      coll_insertOne = (\<lambda>data. Inr (Obj [(''insertedId'', Num 7)])),
      coll_updateMany = (\<lambda>flt upd. Inr (Obj [(''modifiedCount'', Num 1)])),
      coll_deleteMany = (\<lambda>flt. Inr (Obj [(''deletedCount'', Num 1)])),
      coll_countDocuments = (\<lambda>flt. if empty_membership flt then Inr (Num 0)
                                     else Inr (Num 2))\<rparr>"

definition sample_knex :: knex_client where
  "sample_knex =
     \<lparr>await = (\<lambda>q. if empty_whereIn q then Inr (Arr []) else Inr (Arr sample_rows)),
      render = (\<lambda>q. Inr (''select * from '' @ toString (from_table q)))\<rparr>"

text \<open>A relational client whose every call rejects.\<close>

definition failing_knex :: knex_client where
  "failing_knex =
     \<lparr>await = (\<lambda>q. Inl (Error ''connection lost'')),
      render = (\<lambda>q. Inl (Error ''connection lost''))\<rparr>"

definition sample_fastify :: fastify where
  "sample_fastify =
     \<lparr>fastify_mongoose = Some \<lparr>connection_db = Some (\<lambda>name. sample_collection)\<rparr>,
      fastify_knex = Some (\<lambda>name. if name = ''db'' then Some sample_knex else None)\<rparr>"

text \<open>
  A runtime with no environment variables set. Its syntax check for \<open>RegExp\<close> sources is a
  stand-in: it rejects a source that contains one of the characters \<open>( ) [ ] { } + ? |\<close> and
  accepts the others. Its \<open>parseInt\<close> reads digit strings and numbers.
\<close>

definition sample_runtime :: runtime where
  "sample_runtime =
     \<lparr>env_DB_ENGINE = None, env_DB_DECORATOR = None,
      regexp_accepts = (\<lambda>s. list_all (\<lambda>c. c \<notin> set ''()[]{}+?|'') s),
      parseInt10 = (\<lambda>v. case v of
                           Num n \<Rightarrow> Num n
                         | Str s \<Rightarrow> if s \<noteq> [] \<and> list_all is_digit s
                                    then Num (int (digits_value s)) else NaN
                         | _ \<Rightarrow> NaN)\<rparr>"

definition sql_builder :: QueryBuilder where
  "sql_builder =
     \<lparr>qb_fastify = sample_fastify, options = [(''dbEngine'', Str ''pg'')], table = Null,
      collection = Null, conditions = [], qb_fields = [], sorts = [], limitValue = Null,
      skipValue = Null,
      adapter = Knex \<lparr>ka_fastify = sample_fastify, ka_dbEngine = Str ''pg'',
                      ka_knex = sample_knex\<rparr>,
      dbEngine = Str ''pg''\<rparr>"

definition mongo_builder :: QueryBuilder where
  "mongo_builder =
     \<lparr>qb_fastify = sample_fastify, options = [(''dbEngine'', Str ''mongodb'')], table = Null,
      collection = Null, conditions = [], qb_fields = [], sorts = [], limitValue = Null,
      skipValue = Null, adapter = Mongo \<lparr>ma_fastify = sample_fastify\<rparr>,
      dbEngine = Str ''mongodb''\<rparr>"

text \<open>
  A \<open>fastify\<close> instance whose relational client rejects every call, and the builder that
  \<open>limit(50)\<close> leaves on it.
\<close>

definition failing_fastify :: fastify where
  "failing_fastify =
     \<lparr>fastify_mongoose = None,
      fastify_knex = Some (\<lambda>name. if name = ''db'' then Some failing_knex else None)\<rparr>"

definition failing_builder :: QueryBuilder where
  "failing_builder =
     \<lparr>qb_fastify = failing_fastify, options = [(''dbEngine'', Str ''pg'')], table = Null,
      collection = Null, conditions = [], qb_fields = [], sorts = [], limitValue = Num 50,
      skipValue = Null,
      adapter = Knex \<lparr>ka_fastify = failing_fastify, ka_dbEngine = Str ''pg'',
                      ka_knex = failing_knex\<rparr>,
      dbEngine = Str ''pg''\<rparr>"

section \<open>Shared lemmas\<close>

text \<open>The sample builders are what the constructor returns on the sample collaborators.\<close>

lemma new_sql_builder:
  "QueryBuilder_new sample_runtime sample_fastify [(''dbEngine'', Str ''pg'')] = Inr sql_builder"
  by (simp add: QueryBuilder_new_def initAdapter_def effective_engine_def get_prop_def
      or_else_def KnexAdapter_new_def sample_fastify_def decorator_name_def sample_runtime_def
      sql_builder_def)

lemma new_mongo_builder:
  "QueryBuilder_new sample_runtime sample_fastify [(''dbEngine'', Str ''mongodb'')]
     = Inr mongo_builder"
  by (simp add: QueryBuilder_new_def initAdapter_def effective_engine_def get_prop_def
      or_else_def MongoAdapter_new_def sample_fastify_def mongo_builder_def)

lemma new_failing_builder:
  "map_sum id (QueryBuilder_limit (Num 50))
     (QueryBuilder_new sample_runtime failing_fastify [(''dbEngine'', Str ''pg'')])
   = Inr failing_builder"
  by (simp add: QueryBuilder_new_def initAdapter_def effective_engine_def get_prop_def
      or_else_def KnexAdapter_new_def failing_fastify_def decorator_name_def sample_runtime_def
      failing_builder_def QueryBuilder_limit_def)

lemma own_keys_single: "own_keys [(a, v)] = [a]"
  by (simp add: own_keys_def)

lemma own_keys_none: "own_keys [] = []"
  by (simp add: own_keys_def)

lemma literal_two:
  "object_literal [(a, v1), (b, v2)] =
     Obj (if a = ''__proto__'' then (if b = ''__proto__'' then [] else [(b, v2)])
          else if b = ''__proto__'' then [(a, v1)]
          else if a = b then [(a, v2)] else [(a, v1), (b, v2)])"
  by (simp add: object_literal_def)

lemma literal_keys_distinct:
  assumes "Object_keys (object_literal [(a, v1), (b, v2)]) = Inr [a, b]"
  shows "a \<noteq> b \<and> a \<noteq> ''__proto__'' \<and> b \<noteq> ''__proto__''"
proof -
  have "length (own_keys ps) = 2" if "object_literal [(a, v1), (b, v2)] = Obj ps" for ps
    using assms that by simp
  then show ?thesis
    by (auto simp: literal_two own_keys_single own_keys_none split: if_splits)
qed

lemma where_two_args:
  "QueryBuilder_where [Str k, v] q
     = Inr (push \<lparr>field = Str k, operator = Str ''='', value = v\<rparr> q)"
  by (simp add: QueryBuilder_where_def arg_def)

lemma where_three_args:
  "v \<noteq> Undefined \<Longrightarrow>
   QueryBuilder_where [Str k, op, v] q
     = Inr (push \<lparr>field = Str k, operator = op, value = v\<rparr> q)"
  by (simp add: QueryBuilder_where_def arg_def)

lemma convert_eq_tag: "convertOperator (Str ''eq'') = convertOperator (Str ''='')"
  by (simp add: convertOperator_def get_prop_def operatorMap_def Object_prototype_def
      or_else_def)

lemma flat_strings: "flat (map Str xs) = map Str xs"
  by (induction xs) (simp_all add: flat_def)

lemma literal_keys_in_order:
  assumes "a \<noteq> b" and "array_index a = None" and "array_index b = None"
    and "a \<noteq> ''__proto__''" and "b \<noteq> ''__proto__''"
  shows "Object_keys (object_literal [(a, v1), (b, v2)]) = Inr [a, b]"
  using assms by (simp add: literal_two own_keys_def)

lemma stores_assign: "stores (assign_object obj k v) k v"
  by (simp add: stores_def assign_object_def update_conv')





lemma filter_condition_cases:
  "filter_condition rt flt c =
     (if pattern_accepted rt c then Inr (store flt c)
      else Inl (SyntaxError ''Invalid regular expression''))"
  by (simp add: filter_condition_def pattern_accepted_def store_def clause_of_def is_pattern_def
      Let_def)

lemma filter_conditions_accepted:
  "(\<forall>c\<in>set conds. pattern_accepted rt c) \<Longrightarrow>
   filter_conditions rt flt conds = Inr (foldl store flt conds)"
  by (induction conds arbitrary: flt) (simp_all add: filter_condition_cases)




lemma calls_foldl:
  "calls (foldl (\<lambda>q c. call q (g c)) q0 cs) = calls q0 @ map g cs"
  by (induction cs arbitrary: q0) (simp_all add: call_def)

lemma calls_call: "calls (call q c) = calls q @ [c]"
  by (simp add: call_def)

lemma buildQuery_calls:
  "calls (KnexAdapter_buildQuery k b) =
     map condition_call (conditions b)
     @ (if qb_fields b = [] then [] else [Select (qb_fields b)])
     @ map (\<lambda>f. OrderBy f (get_prop (sorts b) f)) (own_keys (sorts b))
     @ (if limitValue b = Null then [] else [Limit (limitValue b)])
     @ (if skipValue b = Null then [] else [Offset (skipValue b)])"
  by (simp add: KnexAdapter_buildQuery_def Let_def calls_foldl calls_call)

lemma buildQuery_table: "from_table (KnexAdapter_buildQuery k b) = table b"
proof -
  have fold: "from_table (foldl (\<lambda>q c. call q (g c)) q0 cs) = from_table q0"
    for g q0 and cs :: "'a list"
    by (induction cs arbitrary: q0) (simp_all add: call_def)
  have one: "from_table (call q c) = from_table q" for q c by (simp add: call_def)
  show ?thesis by (simp add: KnexAdapter_buildQuery_def Let_def fold one)
qed

lemma clause_of_empty_in:
  "clause_of \<lparr>field = f, operator = Str ''in'', value = v\<rparr> = Obj [(''$in'', v)]"
  by (simp add: clause_of_def is_pattern_def convertOperator_def get_prop_def operatorMap_def
      or_else_def)

lemma accepted_in: "pattern_accepted rt \<lparr>field = f, operator = Str ''in'', value = v\<rparr>"
  by (simp add: pattern_accepted_def is_pattern_def convertOperator_def get_prop_def
      operatorMap_def or_else_def)

lemma buildFilter_snoc:
  assumes "\<forall>c\<in>set cs. pattern_accepted rt c" and "pattern_accepted rt d"
  shows "MongoAdapter_buildFilter rt (cs @ [d]) = Inr (store (foldl store empty_object cs) d)"
  using assms filter_conditions_accepted [of "cs @ [d]" rt empty_object]
  by (simp add: MongoAdapter_buildFilter_def)

lemma first_resolved:
  assumes "adapter_get rt (adapter b) (b\<lparr>limitValue := Num 1\<rparr>) = Inr results"
  shows "QueryBuilder_first rt b
           = (case index0 results of Inl e \<Rightarrow> Inl e | Inr row \<Rightarrow> Inr (or_else row Null), b)"
  using assms by (simp add: QueryBuilder_first_def Let_def split: sum.splits)

lemma first_rejected:
  assumes "adapter_get rt (adapter b) (b\<lparr>limitValue := Num 1\<rparr>) = Inl e"
  shows "QueryBuilder_first rt b = (Inl e, b\<lparr>limitValue := Num 1\<rparr>)"
  using assms by (simp add: QueryBuilder_first_def Let_def)

lemma first_no_row:
  assumes "adapter_get rt (adapter b) (b\<lparr>limitValue := Num 1\<rparr>) = Inr (Arr [])"
  shows "QueryBuilder_first rt b = (Inr Null, b)"
  using first_resolved [OF assms] by (simp add: index0_def first_elem_def or_else_def)

lemma first_success_example:
  "QueryBuilder_first sample_runtime (QueryBuilder_limit (Num 50) (QueryBuilder_from (Str ''users'') sql_builder))
   = (Inr (Obj [(''id'', Num 1), (''role'', Str ''admin'')]),
      QueryBuilder_limit (Num 50) (QueryBuilder_from (Str ''users'') sql_builder))"
proof -
  let ?b = "QueryBuilder_limit (Num 50) (QueryBuilder_from (Str ''users'') sql_builder)"
  have g: "adapter_get sample_runtime (adapter ?b) (?b\<lparr>limitValue := Num 1\<rparr>) = Inr (Arr sample_rows)"
    by code_simp
  have i: "index0 (Arr sample_rows) = Inr (Obj [(''id'', Num 1), (''role'', Str ''admin'')])"
    by code_simp
  have o: "or_else (Obj [(''id'', Num 1), (''role'', Str ''admin'')]) Null
      = Obj [(''id'', Num 1), (''role'', Str ''admin'')]"
    by code_simp
  show ?thesis using first_resolved [OF g] i o by simp
qed

lemma unknown_operator_defaults:
  assumes "toString op \<notin> fst ` set operatorMap" and "toString op \<notin> set Object_prototype"
  shows "convertOperator op = Str ''$eq''"
proof -
  have "map_of operatorMap (toString op) = None"
    using assms(1) by (simp add: map_of_eq_None_iff)
  then show ?thesis using assms(2)
    by (simp add: convertOperator_def get_prop_def or_else_def)
qed

lemma unknown_operator_verbatim:
  assumes "op \<noteq> Str ''in''" "op \<noteq> Str ''not in''" "op \<noteq> Str ''like''"
  shows "condition_call \<lparr>field = f, operator = op, value = v\<rparr> = Where f op v"
  using assms by (simp add: condition_call_def)

lemma retag_fields:
  "table (retag opts tag stored b) = table b"
  "collection (retag opts tag stored b) = collection b"
  "conditions (retag opts tag stored b) = conditions b"
  "qb_fields (retag opts tag stored b) = qb_fields b"
  "sorts (retag opts tag stored b) = sorts b"
  "limitValue (retag opts tag stored b) = limitValue b"
  "skipValue (retag opts tag stored b) = skipValue b"
  by (simp_all add: retag_def)

lemma retag_adapter:
  "adapter b = Knex k \<Longrightarrow> adapter (retag opts tag stored b) = Knex (k\<lparr>ka_dbEngine := stored\<rparr>)"
  by (simp add: retag_def)

lemma buildQuery_retag:
  "KnexAdapter_buildQuery (k\<lparr>ka_dbEngine := stored\<rparr>) (retag opts tag stored b)
     = KnexAdapter_buildQuery k b"
  by (simp add: KnexAdapter_buildQuery_def retag_fields Let_def)

lemma retag_limit:
  "(retag opts tag stored b)\<lparr>limitValue := n\<rparr> = retag opts tag stored (b\<lparr>limitValue := n\<rparr>)"
  by (simp add: retag_def)

lemma knex_get_retag:
  "KnexAdapter_get (k\<lparr>ka_dbEngine := stored\<rparr>) (retag opts tag stored b) = KnexAdapter_get k b"
  by (simp add: KnexAdapter_get_def buildQuery_retag)

lemma first_retag:
  assumes "adapter b = Knex k"
  shows "QueryBuilder_first rt (retag opts tag stored b)
           = (fst (QueryBuilder_first rt b), retag opts tag stored (snd (QueryBuilder_first rt b)))"
proof -
  have a1: "adapter (b\<lparr>limitValue := Num 1\<rparr>) = Knex k" using assms by simp
  have g: "adapter_get rt (adapter ((retag opts tag stored b)\<lparr>limitValue := Num 1\<rparr>))
             ((retag opts tag stored b)\<lparr>limitValue := Num 1\<rparr>)
           = adapter_get rt (adapter (b\<lparr>limitValue := Num 1\<rparr>)) (b\<lparr>limitValue := Num 1\<rparr>)"
    using retag_adapter [OF a1, of opts tag stored] a1
    by (simp add: retag_limit adapter_get_def knex_get_retag)
  show ?thesis
    unfolding QueryBuilder_first_def Let_def g
    by (simp add: retag_fields retag_limit split: sum.splits)
qed

lemma new_is_knex:
  "QueryBuilder_new rt fy opts = Inr b0 \<and> dbEngine b0 \<noteq> Str ''mongodb'' \<and> dbEngine b0 \<noteq> Str ''mongo''
     \<longrightarrow> (\<exists>k0. adapter b0 = Knex k0 \<and> ka_dbEngine k0 = dbEngine b0)"
proof -
  have t: "truthy (effective_engine rt opts)"
    by (simp add: effective_engine_def or_else_def)
  show ?thesis
    using t
    by (auto simp: QueryBuilder_new_def initAdapter_def KnexAdapter_new_def or_else_def
        split: sum.splits option.splits if_splits)
qed

section \<open>The call shapes of \<open>where\<close>\<close>

text \<open>
  C1 (as the code has it). The shape of a \<open>where\<close> call is selected by the values of its
  arguments, not by their number. When \<open>typeof field\<close> is not \<open>'object'\<close>, a call whose third
  argument is \<open>undefined\<close> is the two-argument equality call whether or not that argument was
  passed: \<open>where(field, operator, undefined)\<close> appends \<open>{field, operator: '=', value: operator}\<close>,
  as \<open>where(field, operator)\<close> does; with a third argument other than \<open>undefined\<close> it appends
  \<open>{field, operator, value}\<close>. When \<open>typeof field\<close> is \<open>'object'\<close>, the further arguments are
  ignored.
\<close>

theorem where_shape_by_value:
  "(typeof f \<noteq> ''object'' \<longrightarrow>
      QueryBuilder_where [f, op, Undefined] b = QueryBuilder_where [f, op] b
    \<and> QueryBuilder_where [f, op, Undefined] b
        = Inr (push \<lparr>field = f, operator = Str ''='', value = op\<rparr> b)
    \<and> (v \<noteq> Undefined \<longrightarrow>
          QueryBuilder_where [f, op, v] b
          = Inr (push \<lparr>field = f, operator = op, value = v\<rparr> b)))
   \<and> (typeof f = ''object'' \<longrightarrow> QueryBuilder_where (f # rest) b = QueryBuilder_where [f] b)"
  by (simp add: QueryBuilder_where_def arg_def Let_def)

theorem where_shape_by_value_witness:
  "QueryBuilder_where [Str ''age'', Str ''>'', Undefined] sql_builder
     = QueryBuilder_where [Str ''age'', Str ''>''] sql_builder
   \<and> QueryBuilder_where [Str ''age'', Str ''>'', Undefined] sql_builder
     = Inr (push \<lparr>field = Str ''age'', operator = Str ''='', value = Str ''>''\<rparr> sql_builder)
   \<and> QueryBuilder_where [Str ''age'', Str ''>'', Num 18] sql_builder
     = Inr (push \<lparr>field = Str ''age'', operator = Str ''>'', value = Num 18\<rparr> sql_builder)
   \<and> QueryBuilder_where [Obj [(''a'', Num 1)], Str ''>'', Num 18] sql_builder
     = QueryBuilder_where [Obj [(''a'', Num 1)]] sql_builder"
  using where_shape_by_value [of "Str ''age''" "Str ''>''" sql_builder "Num 18"]
        where_shape_by_value [of "Obj [(''a'', Num 1)]" "Str ''>''" sql_builder "Num 18"
          "[Str ''>'', Num 18]"]
  by auto

text \<open>
  C1 as stated fails: the three-argument call \<open>where('age', '>', undefined)\<close> does not append
  \<open>{field: 'age', operator: '>', value: undefined}\<close>.
\<close>

theorem where_undefined_counterexample:
  "QueryBuilder_where [Str ''age'', Str ''>'', Undefined] sql_builder
   \<noteq> Inr (push \<lparr>field = Str ''age'', operator = Str ''>'', value = Undefined\<rparr> sql_builder)"
  by (simp add: QueryBuilder_where_def arg_def Let_def push_def sql_builder_def)

text \<open>
  C2 (as the code has it). For keys \<open>a\<close>, \<open>b\<close> that the object \<open>{a: v1, b: v2}\<close> enumerates in
  this order (two different keys, neither of them \<open>__proto__\<close>, and not array indices written
  out of ascending order), and
  for all values, \<open>where({a: v1, b: v2})\<close> leaves the same builder, and so the same condition
  sequence and the same translated query on both adapters, as \<open>where(a, v1).where(b, v2)\<close>;
  and, when neither value is \<open>undefined\<close>, as \<open>where(a, '=', v1).where(b, '=', v2)\<close>. The
  equality tag the builder writes is \<open>'='\<close>. A tag \<open>'eq'\<close> is stored as given: the document
  adapter translates a condition with it as it translates one with \<open>'='\<close>, and the relational
  adapter passes \<open>'eq'\<close> on.
\<close>

theorem where_shapes_agree:
  assumes "Object_keys (object_literal [(a, v1), (b, v2)]) = Inr [a, b]"
  shows "QueryBuilder_where [object_literal [(a, v1), (b, v2)]] q
           = and_then (QueryBuilder_where [Str a, v1] q) (QueryBuilder_where [Str b, v2])
       \<and> (v1 \<noteq> Undefined \<and> v2 \<noteq> Undefined \<longrightarrow>
            QueryBuilder_where [object_literal [(a, v1), (b, v2)]] q
            = and_then (QueryBuilder_where [Str a, Str ''='', v1] q)
                (QueryBuilder_where [Str b, Str ''='', v2]))
       \<and> filter_condition rt flt \<lparr>field = f, operator = Str ''eq'', value = v\<rparr>
           = filter_condition rt flt \<lparr>field = f, operator = Str ''='', value = v\<rparr>
       \<and> condition_call \<lparr>field = f, operator = Str ''eq'', value = v\<rparr>
           = Where f (Str ''eq'') v"
proof -
  have ne: "a \<noteq> b" and np: "a \<noteq> ''__proto__''" "b \<noteq> ''__proto__''"
    using literal_keys_distinct [OF assms] by simp_all
  have lit: "object_literal [(a, v1), (b, v2)] = Obj [(a, v1), (b, v2)]"
    using ne np by (simp add: literal_two)
  have keys: "own_keys [(a, v1), (b, v2)] = [a, b]"
    using assms by (simp add: lit)
  have obj: "QueryBuilder_where [object_literal [(a, v1), (b, v2)]] q
      = Inr (push \<lparr>field = Str b, operator = Str ''='', value = v2\<rparr>
              (push \<lparr>field = Str a, operator = Str ''='', value = v1\<rparr> q))"
    using ne by (simp add: lit QueryBuilder_where_def arg_def keys get_prop_def)
  have two: "and_then (QueryBuilder_where [Str a, v1] q) (QueryBuilder_where [Str b, v2])
      = Inr (push \<lparr>field = Str b, operator = Str ''='', value = v2\<rparr>
              (push \<lparr>field = Str a, operator = Str ''='', value = v1\<rparr> q))"
    by (simp add: and_then_def where_two_args)
  have three: "and_then (QueryBuilder_where [Str a, Str ''='', v1] q)
                (QueryBuilder_where [Str b, Str ''='', v2])
      = Inr (push \<lparr>field = Str b, operator = Str ''='', value = v2\<rparr>
              (push \<lparr>field = Str a, operator = Str ''='', value = v1\<rparr> q))"
    if "v1 \<noteq> Undefined" "v2 \<noteq> Undefined"
    using that by (simp add: and_then_def where_three_args)
  have mongo: "filter_condition rt flt \<lparr>field = f, operator = Str ''eq'', value = v\<rparr>
           = filter_condition rt flt \<lparr>field = f, operator = Str ''='', value = v\<rparr>"
    by (simp add: filter_condition_def convert_eq_tag Let_def)
  have knex: "condition_call \<lparr>field = f, operator = Str ''eq'', value = v\<rparr>
           = Where f (Str ''eq'') v"
    by (simp add: condition_call_def)
  show ?thesis using obj two three mongo knex by simp
qed

theorem where_shapes_agree_witness:
  "QueryBuilder_where [object_literal [(''a'', Num 1), (''b'', Num 2)]] sql_builder
     = and_then (QueryBuilder_where [Str ''a'', Num 1] sql_builder)
         (QueryBuilder_where [Str ''b'', Num 2])
   \<and> QueryBuilder_where [object_literal [(''a'', Num 1), (''b'', Num 2)]] sql_builder
     = and_then (QueryBuilder_where [Str ''a'', Str ''='', Num 1] sql_builder)
         (QueryBuilder_where [Str ''b'', Str ''='', Num 2])"
proof -
  have keys: "Object_keys (object_literal [(''a'', Num 1), (''b'', Num 2)]) = Inr [''a'', ''b'']"
    by code_simp
  show ?thesis
    using where_shapes_agree [OF keys, of sql_builder sample_runtime empty_object Null Null]
    by auto
qed

text \<open>
  C2 as stated fails: \<open>where({a: 1, b: 2})\<close> and \<open>where('a', 'eq', 1).where('b', 'eq', 2)\<close> leave
  different condition sequences (operator \<open>'='\<close> against \<open>'eq'\<close>), and the relational adapter
  builds different statements from them.
\<close>

theorem where_eq_tag_counterexample:
  "map_sum id conditions
     (QueryBuilder_where [object_literal [(''a'', Num 1), (''b'', Num 2)]] sql_builder)
   \<noteq> map_sum id conditions
       (and_then (QueryBuilder_where [Str ''a'', Str ''eq'', Num 1] sql_builder)
          (QueryBuilder_where [Str ''b'', Str ''eq'', Num 2]))
   \<and> map_sum id (\<lambda>b. calls (KnexAdapter_buildQuery
          \<lparr>ka_fastify = sample_fastify, ka_dbEngine = Str ''pg'', ka_knex = sample_knex\<rparr> b))
     (QueryBuilder_where [object_literal [(''a'', Num 1), (''b'', Num 2)]] sql_builder)
   \<noteq> map_sum id (\<lambda>b. calls (KnexAdapter_buildQuery
          \<lparr>ka_fastify = sample_fastify, ka_dbEngine = Str ''pg'', ka_knex = sample_knex\<rparr> b))
       (and_then (QueryBuilder_where [Str ''a'', Str ''eq'', Num 1] sql_builder)
          (QueryBuilder_where [Str ''b'', Str ''eq'', Num 2]))"
  by code_simp

text \<open>
  Why the statement above is restricted: an object enumerates its array-index keys first, a
  key written twice in a literal is one key, the key \<open>__proto__\<close> of a literal is no property,
  and a three-argument call with the value \<open>undefined\<close> is read as a two-argument call.
\<close>

lemma index_7: "array_index ''7'' = Some 7"
  by (simp add: array_index_def is_digit_def digits_value_def)

lemma index_x: "array_index ''x'' = None"
  by (simp add: array_index_def is_digit_def)

lemma keys_x7: "own_keys [(''x'', Num 1), (''7'', Num 2)] = [''7'', ''x'']"
  by (simp add: own_keys_def index_7 index_x)

lemma where_index_keys_first:
  "map_sum id conditions
     (QueryBuilder_where [object_literal [(''x'', Num 1), (''7'', Num 2)]] sql_builder)
   = Inr [\<lparr>field = Str ''7'', operator = Str ''='', value = Num 2\<rparr>,
          \<lparr>field = Str ''x'', operator = Str ''='', value = Num 1\<rparr>]"
  by (simp add: QueryBuilder_where_def arg_def object_literal_def keys_x7 push_def
      get_prop_def sql_builder_def)

lemma where_repeated_key:
  "map_sum id conditions
     (QueryBuilder_where [object_literal [(''x'', Num 1), (''x'', Num 2)]] sql_builder)
   = Inr [\<lparr>field = Str ''x'', operator = Str ''='', value = Num 2\<rparr>]"
  by code_simp

lemma where_proto_literal_key:
  "map_sum id conditions
     (QueryBuilder_where [object_literal [(''__proto__'', Num 1), (''x'', Num 2)]] sql_builder)
   = Inr [\<lparr>field = Str ''x'', operator = Str ''='', value = Num 2\<rparr>]"
  by code_simp

lemma where_eq_undefined:
  "map_sum id conditions (QueryBuilder_where [Str ''x'', Str ''='', Undefined] sql_builder)
   = Inr [\<lparr>field = Str ''x'', operator = Str ''='', value = Str ''=''\<rparr>]"
  by code_simp

section \<open>Projection\<close>

text \<open>
  C8. \<open>select\<close> flattens its arguments and replaces the projected fields: whatever the
  projection was before, \<open>select('a','b')\<close> followed by \<open>select('c')\<close> leaves \<open>['c']\<close>, and
  \<open>select(['a','b'])\<close> leaves the same builder as \<open>select('a','b')\<close>. In general a second
  \<open>select\<close> makes the first one void, array arguments are concatenated, and string arguments
  are kept as they are.
\<close>

theorem select_replaces:
  "qb_fields (QueryBuilder_select [Str c] (QueryBuilder_select [Str a, Str b] q)) = [Str c]
   \<and> QueryBuilder_select [Arr [Str a, Str b]] q = QueryBuilder_select [Str a, Str b] q
   \<and> qb_fields (QueryBuilder_select [Str a, Str b] q) = [Str a, Str b]
   \<and> QueryBuilder_select ys (QueryBuilder_select xs q) = QueryBuilder_select ys q
   \<and> qb_fields (QueryBuilder_select (map Arr xss) q) = concat xss
   \<and> qb_fields (QueryBuilder_select (map Str names) q) = map Str names"
proof -
  have "flat (map Arr xss) = concat xss" by (simp add: flat_def comp_def)
  then show ?thesis
    by (simp add: QueryBuilder_select_def flat_strings) (simp add: flat_def)
qed

theorem select_replaces_witness:
  "qb_fields (QueryBuilder_select [Str ''c'']
      (QueryBuilder_select [Str ''a'', Str ''b''] (QueryBuilder_select [Str ''z''] sql_builder)))
     = [Str ''c'']
   \<and> QueryBuilder_select [Arr [Str ''a'', Str ''b'']] sql_builder
     = QueryBuilder_select [Str ''a'', Str ''b''] sql_builder"
  using select_replaces [of "''c''" "''a''" "''b''" "QueryBuilder_select [Str ''z''] sql_builder"
          "[]" "[]" "[]" "[]"]
        select_replaces [of "''c''" "''a''" "''b''" sql_builder "[]" "[]" "[]" "[]"]
  by simp

section \<open>Statement text\<close>

text \<open>
  C7. \<open>toSQL()\<close> on a builder bound to the document adapter raises the UnsupportedOperation
  error, whatever the state of the builder, as the result of the call itself; on a builder
  bound to the relational adapter it returns what the relational client renders for the
  built statement.
\<close>

theorem toSQL_by_adapter:
  "(adapter b = Mongo m \<longrightarrow> QueryBuilder_toSQL b = Inl UnsupportedOperation)
   \<and> (adapter b = Knex k \<longrightarrow>
        QueryBuilder_toSQL b = render (ka_knex k) (KnexAdapter_buildQuery k b))"
  by (simp add: QueryBuilder_toSQL_def UnsupportedOperation_def)

theorem toSQL_by_adapter_witness:
  "QueryBuilder_toSQL (QueryBuilder_limit (Num 5) (QueryBuilder_from (Str ''users'') mongo_builder))
     = Inl (Error ''toSQL() hanya tersedia untuk SQL database'')
   \<and> QueryBuilder_toSQL (QueryBuilder_from (Str ''users'') sql_builder)
     = Inr ''select * from users''"
proof -
  have m: "adapter (QueryBuilder_limit (Num 5) (QueryBuilder_from (Str ''users'') mongo_builder))
            = Mongo \<lparr>ma_fastify = sample_fastify\<rparr>"
    by (simp add: QueryBuilder_limit_def QueryBuilder_from_def mongo_builder_def)
  have k: "adapter (QueryBuilder_from (Str ''users'') sql_builder)
            = Knex \<lparr>ka_fastify = sample_fastify, ka_dbEngine = Str ''pg'',
                     ka_knex = sample_knex\<rparr>"
    by (simp add: QueryBuilder_from_def sql_builder_def)
  have r: "render sample_knex
             (KnexAdapter_buildQuery
                \<lparr>ka_fastify = sample_fastify, ka_dbEngine = Str ''pg'', ka_knex = sample_knex\<rparr>
                (QueryBuilder_from (Str ''users'') sql_builder))
           = Inr ''select * from users''"
    by (simp add: sample_knex_def KnexAdapter_buildQuery_def QueryBuilder_from_def
        sql_builder_def own_keys_def)
  show ?thesis
    using toSQL_by_adapter
            [of "QueryBuilder_limit (Num 5) (QueryBuilder_from (Str ''users'') mongo_builder)"
                "\<lparr>ma_fastify = sample_fastify\<rparr>"] m
          toSQL_by_adapter
            [of "QueryBuilder_from (Str ''users'') sql_builder" _
                "\<lparr>ka_fastify = sample_fastify, ka_dbEngine = Str ''pg'',
                  ka_knex = sample_knex\<rparr>"] k r
    by (simp add: UnsupportedOperation_def)
qed

section \<open>The document filter\<close>



text \<open>
  What the adapters do with \<open>whereIn(field, [])\<close>. For a field whose key is not \<open>__proto__\<close>
  the filter gets the own entry \<open>{$in: []}\<close> and \<open>get()\<close> returns what the collection finds for
  that filter: no documents, on a store that matches nothing against an own entry with an
  empty membership list. The relational adapter calls \<open>whereIn(field, [])\<close> on the query it
  builds, for every field. Neither adapter tests for the empty sequence.
\<close>

lemma whereIn_empty_own_entry:
  assumes "toString f \<noteq> ''__proto__''"
    and "\<forall>c\<in>set (conditions b). pattern_accepted rt c"
  shows "\<exists>flt. MongoAdapter_buildFilter rt (conditions (QueryBuilder_whereIn f (Arr []) b))
                 = Inr flt
               \<and> map_of (own flt) (toString f) = Some (Obj [(''$in'', Arr [])])"
proof -
  let ?c = "\<lparr>field = f, operator = Str ''in'', value = Arr []\<rparr>"
  let ?flt = "store (foldl store empty_object (conditions b)) ?c"
  have conds: "conditions (QueryBuilder_whereIn f (Arr []) b) = conditions b @ [?c]"
    by (simp add: QueryBuilder_whereIn_def push_def)
  have built: "MongoAdapter_buildFilter rt (conditions (QueryBuilder_whereIn f (Arr []) b))
      = Inr ?flt"
    unfolding conds using assms(2) accepted_in by (rule buildFilter_snoc)
  have "stores ?flt (toString f) (Obj [(''$in'', Arr [])])"
    using stores_assign [of "foldl store empty_object (conditions b)" "toString f"
        "Obj [(''$in'', Arr [])]"]
    by (simp add: store_def clause_of_empty_in)
  then have "map_of (own ?flt) (toString f) = Some (Obj [(''$in'', Arr [])])"
    using assms(1) by (simp add: stores_def)
  with built show ?thesis by blast
qed

lemma whereIn_empty_get:
  assumes "adapter b = Mongo a" and "getCollection a (collection b) = Inr coll"
    and "toString f \<noteq> ''__proto__''"
    and "\<forall>c\<in>set (conditions b). pattern_accepted rt c"
    and "\<forall>flt opts. map_of (own flt) (toString f) = Some (Obj [(''$in'', Arr [])])
           \<longrightarrow> coll_find coll flt opts = Inr []"
  shows "QueryBuilder_get rt (QueryBuilder_whereIn f (Arr []) b) = Inr (Arr [])"
proof -
  let ?b = "QueryBuilder_whereIn f (Arr []) b"
  have same: "adapter ?b = adapter b" "collection ?b = collection b"
    by (simp_all add: QueryBuilder_whereIn_def push_def)
  obtain flt where built: "MongoAdapter_buildFilter rt (conditions ?b) = Inr flt"
    and entry: "map_of (own flt) (toString f) = Some (Obj [(''$in'', Arr [])])"
    using whereIn_empty_own_entry [OF assms(3) assms(4)] by blast
  have "QueryBuilder_get rt ?b
      = map_sum id Arr (coll_find coll flt (MongoAdapter_buildOptions ?b))"
    using assms(1) assms(2) built
    by (simp add: QueryBuilder_get_def adapter_get_def same MongoAdapter_get_def)
  with assms(5) entry show ?thesis by simp
qed

lemma whereIn_empty_call:
  assumes "adapter b = Knex k"
  shows "QueryBuilder_get rt (QueryBuilder_whereIn f (Arr []) b)
           = await (ka_knex k) (KnexAdapter_buildQuery k (QueryBuilder_whereIn f (Arr []) b))
         \<and> WhereIn f (Arr [])
             \<in> set (calls (KnexAdapter_buildQuery k (QueryBuilder_whereIn f (Arr []) b)))"
proof -
  let ?b = "QueryBuilder_whereIn f (Arr []) b"
  have conds: "conditions ?b = conditions b @ [\<lparr>field = f, operator = Str ''in'', value = Arr []\<rparr>]"
    and same: "adapter ?b = adapter b"
    by (simp_all add: QueryBuilder_whereIn_def push_def)
  have "QueryBuilder_get rt ?b = await (ka_knex k) (KnexAdapter_buildQuery k ?b)"
    using assms by (simp add: QueryBuilder_get_def adapter_get_def same KnexAdapter_get_def)
  moreover have "WhereIn f (Arr []) \<in> set (calls (KnexAdapter_buildQuery k ?b))"
    by (simp add: buildQuery_calls conds condition_call_def)
  ultimately show ?thesis by simp
qed

text \<open>
  C4 fails on the code at the field name \<open>__proto__\<close>. There \<open>filter[field] = {$in: []}\<close> runs
  the setter that every object inherits: the clause becomes the prototype of the filter, and
  the filter is left without an own entry, as the filter of a query with no condition is.
  A document store reads the own properties of the filter, so \<open>get()\<close> returns all documents
  (the two of the sample store), where the same call on the field \<open>role\<close> returns none. The
  relational adapter has no such case.
\<close>

theorem whereIn_proto_field_all_rows:
  "MongoAdapter_buildFilter sample_runtime
     (conditions (QueryBuilder_whereIn (Str ''__proto__'') (Arr [])
        (QueryBuilder_from (Str ''users'') mongo_builder)))
     = Inr \<lparr>own = [], proto = Some (Obj [(''$in'', Arr [])])\<rparr>
   \<and> QueryBuilder_get sample_runtime
       (QueryBuilder_whereIn (Str ''__proto__'') (Arr [])
          (QueryBuilder_from (Str ''users'') mongo_builder))
     = Inr (Arr sample_rows)
   \<and> QueryBuilder_get sample_runtime (QueryBuilder_from (Str ''users'') mongo_builder)
     = Inr (Arr sample_rows)
   \<and> QueryBuilder_get sample_runtime
       (QueryBuilder_whereIn (Str ''role'') (Arr [])
          (QueryBuilder_from (Str ''users'') mongo_builder))
     = Inr (Arr [])
   \<and> QueryBuilder_get sample_runtime
       (QueryBuilder_whereIn (Str ''__proto__'') (Arr [])
          (QueryBuilder_from (Str ''users'') sql_builder))
     = Inr (Arr [])"
  by code_simp

text \<open>
  C5 fails on the code for the operator tags that name a member of \<open>Object.prototype\<close>:
  \<open>operatorMap['constructor']\<close> is the inherited \<open>Object\<close> function, which is truthy, so the
  fallback \<open>|| '$eq'\<close> is not taken and the clause is keyed by the text of that function.
  (For every other tag outside the vocabulary the clause is \<open>{$eq: value}\<close>, and the relational
  adapter passes the tag on: lemmas \<open>unknown_operator_defaults\<close> and
  \<open>unknown_operator_verbatim\<close>.)
\<close>

theorem inherited_operator_not_eq:
  "convertOperator (Str ''constructor'') = Builtin ''constructor''
   \<and> MongoAdapter_buildFilter sample_runtime
        [\<lparr>field = Str ''age'', operator = Str ''constructor'', value = Num 1\<rparr>]
      = Inr \<lparr>own = [(''age'', Obj [(''function Object() { [native code] }'', Num 1)])],
             proto = None\<rparr>
   \<and> MongoAdapter_buildFilter sample_runtime
        [\<lparr>field = Str ''age'', operator = Str ''constructor'', value = Num 1\<rparr>]
      \<noteq> Inr \<lparr>own = [(''age'', Obj [(''$eq'', Num 1)])], proto = None\<rparr>"
  by code_simp

section \<open>\<open>first\<close> and the limit\<close>

text \<open>
  C3 fails on the code when the adapter call rejects: \<open>first()\<close> has set \<open>limitValue\<close> to 1 and
  the line that restores it is not reached. A builder with limit 50 is left with limit 1.
  (When the call resolves, the limit is restored and the first row, or \<open>null\<close>, is returned:
  lemma \<open>first_resolved\<close>.)
\<close>

theorem first_rejected_keeps_limit_1:
  "limitValue failing_builder = Num 50
   \<and> QueryBuilder_first sample_runtime failing_builder
       = (Inl (Error ''connection lost''), failing_builder\<lparr>limitValue := Num 1\<rparr>)
   \<and> limitValue (snd (QueryBuilder_first sample_runtime failing_builder)) = Num 1"
proof -
  have "adapter_get sample_runtime (adapter failing_builder) (failing_builder\<lparr>limitValue := Num 1\<rparr>)
          = Inl (Error ''connection lost'')"
    by (simp add: adapter_get_def failing_builder_def KnexAdapter_get_def failing_knex_def)
  from first_rejected [OF this] show ?thesis
    by (simp add: failing_builder_def)
qed

section \<open>The engine tag and the field of \<open>count\<close>\<close>

text \<open>
  C9. For every engine tag other than \<open>'mongodb'\<close> and \<open>'mongo'\<close>, \<open>_initAdapter\<close> constructs the
  relational adapter (or fails because the Knex instance is missing, whatever the tag), and
  the adapter it constructs depends on the tag in its stored \<open>dbEngine\<close> only; a builder the
  constructor returns with such a tag is bound to the relational adapter. Two builders bound
  to the relational adapter that differ in the engine tag only build the same query and give
  the same result on every operation: \<open>toSQL\<close>, \<open>get\<close>, \<open>first\<close>, \<open>insert\<close>, \<open>update\<close>, \<open>delete\<close>,
  \<open>count\<close>, and every chained configuration method.
\<close>

theorem engine_tag_irrelevant:
  "(engine \<noteq> Str ''mongodb'' \<and> engine \<noteq> Str ''mongo'' \<longrightarrow>
      initAdapter rt fy engine = map_sum id Knex (KnexAdapter_new rt fy engine)
      \<and> KnexAdapter_new rt fy engine
          = map_sum id (\<lambda>a. a\<lparr>ka_dbEngine := or_else engine (Str ''pg'')\<rparr>)
              (KnexAdapter_new rt fy engine'))
   \<and> (QueryBuilder_new rt fy opts0 = Inr b0
        \<and> dbEngine b0 \<noteq> Str ''mongodb'' \<and> dbEngine b0 \<noteq> Str ''mongo''
        \<longrightarrow> (\<exists>k0. adapter b0 = Knex k0 \<and> ka_dbEngine k0 = dbEngine b0))
   \<and> (adapter b = Knex k \<longrightarrow>
        adapter (retag opts tag stored b) = Knex (k\<lparr>ka_dbEngine := stored\<rparr>)
        \<and> KnexAdapter_buildQuery (k\<lparr>ka_dbEngine := stored\<rparr>) (retag opts tag stored b)
            = KnexAdapter_buildQuery k b
        \<and> QueryBuilder_toSQL (retag opts tag stored b) = QueryBuilder_toSQL b
        \<and> QueryBuilder_get rt (retag opts tag stored b) = QueryBuilder_get rt b
        \<and> QueryBuilder_first rt (retag opts tag stored b)
            = (fst (QueryBuilder_first rt b), retag opts tag stored (snd (QueryBuilder_first rt b)))
        \<and> QueryBuilder_insert (retag opts tag stored b) data = QueryBuilder_insert b data
        \<and> QueryBuilder_update rt (retag opts tag stored b) data = QueryBuilder_update rt b data
        \<and> QueryBuilder_delete rt (retag opts tag stored b) = QueryBuilder_delete rt b
        \<and> QueryBuilder_count rt args (retag opts tag stored b) = QueryBuilder_count rt args b)
   \<and> QueryBuilder_where args (retag opts tag stored b)
        = map_sum id (retag opts tag stored) (QueryBuilder_where args b)
   \<and> QueryBuilder_whereIn f vs (retag opts tag stored b)
        = retag opts tag stored (QueryBuilder_whereIn f vs b)
   \<and> QueryBuilder_whereNotIn f vs (retag opts tag stored b)
        = retag opts tag stored (QueryBuilder_whereNotIn f vs b)
   \<and> QueryBuilder_whereLike f vs (retag opts tag stored b)
        = retag opts tag stored (QueryBuilder_whereLike f vs b)
   \<and> QueryBuilder_select args (retag opts tag stored b)
        = retag opts tag stored (QueryBuilder_select args b)
   \<and> QueryBuilder_orderBy f d (retag opts tag stored b)
        = map_sum id (retag opts tag stored) (QueryBuilder_orderBy f d b)
   \<and> QueryBuilder_limit n (retag opts tag stored b)
        = retag opts tag stored (QueryBuilder_limit n b)
   \<and> QueryBuilder_skip n (retag opts tag stored b)
        = retag opts tag stored (QueryBuilder_skip n b)
   \<and> QueryBuilder_offset n (retag opts tag stored b)
        = retag opts tag stored (QueryBuilder_offset n b)
   \<and> QueryBuilder_from n (retag opts tag stored b)
        = retag opts tag stored (QueryBuilder_from n b)"
proof -
  have init: "initAdapter rt fy engine = map_sum id Knex (KnexAdapter_new rt fy engine)"
    if "engine \<noteq> Str ''mongodb''" "engine \<noteq> Str ''mongo''"
    using that by (simp add: initAdapter_def)
  have new: "KnexAdapter_new rt fy engine
          = map_sum id (\<lambda>a. a\<lparr>ka_dbEngine := or_else engine (Str ''pg'')\<rparr>)
              (KnexAdapter_new rt fy engine')"
    by (simp add: KnexAdapter_new_def split: option.splits)
  have exec: "adapter (retag opts tag stored b) = Knex (k\<lparr>ka_dbEngine := stored\<rparr>)
        \<and> QueryBuilder_toSQL (retag opts tag stored b) = QueryBuilder_toSQL b
        \<and> QueryBuilder_get rt (retag opts tag stored b) = QueryBuilder_get rt b
        \<and> QueryBuilder_insert (retag opts tag stored b) data = QueryBuilder_insert b data
        \<and> QueryBuilder_update rt (retag opts tag stored b) data = QueryBuilder_update rt b data
        \<and> QueryBuilder_delete rt (retag opts tag stored b) = QueryBuilder_delete rt b
        \<and> QueryBuilder_count rt args (retag opts tag stored b) = QueryBuilder_count rt args b"
    if ad: "adapter b = Knex k"
    using ad retag_adapter [OF ad, of opts tag stored]
    by (simp add: QueryBuilder_toSQL_def QueryBuilder_get_def adapter_get_def knex_get_retag
        QueryBuilder_insert_def KnexAdapter_insert_def QueryBuilder_update_def
        KnexAdapter_update_def QueryBuilder_delete_def KnexAdapter_delete_def
        QueryBuilder_count_def KnexAdapter_count_def buildQuery_retag retag_fields)
  have push: "push c (retag opts tag stored b) = retag opts tag stored (push c b)" for c b
    by (simp add: push_def retag_def)
  have fold: "foldl (\<lambda>b key. push (g key) b) (retag opts tag stored b) keys
      = retag opts tag stored (foldl (\<lambda>b key. push (g key) b) b keys)" for g keys
    by (induction keys arbitrary: b) (simp_all add: push)
  have wh: "QueryBuilder_where args (retag opts tag stored b)
        = map_sum id (retag opts tag stored) (QueryBuilder_where args b)"
    by (simp add: QueryBuilder_where_def Let_def push fold split: sum.splits)
  have chain: "QueryBuilder_whereIn f vs (retag opts tag stored b)
        = retag opts tag stored (QueryBuilder_whereIn f vs b)
   \<and> QueryBuilder_whereNotIn f vs (retag opts tag stored b)
        = retag opts tag stored (QueryBuilder_whereNotIn f vs b)
   \<and> QueryBuilder_whereLike f vs (retag opts tag stored b)
        = retag opts tag stored (QueryBuilder_whereLike f vs b)
   \<and> QueryBuilder_select args (retag opts tag stored b)
        = retag opts tag stored (QueryBuilder_select args b)
   \<and> QueryBuilder_limit n (retag opts tag stored b)
        = retag opts tag stored (QueryBuilder_limit n b)
   \<and> QueryBuilder_skip n (retag opts tag stored b)
        = retag opts tag stored (QueryBuilder_skip n b)
   \<and> QueryBuilder_offset n (retag opts tag stored b)
        = retag opts tag stored (QueryBuilder_offset n b)
   \<and> QueryBuilder_from n (retag opts tag stored b)
        = retag opts tag stored (QueryBuilder_from n b)"
    by (simp add: QueryBuilder_whereIn_def QueryBuilder_whereNotIn_def QueryBuilder_whereLike_def
        push QueryBuilder_select_def QueryBuilder_limit_def QueryBuilder_skip_def
        QueryBuilder_offset_def QueryBuilder_from_def) (simp add: retag_def)
  have ob: "QueryBuilder_orderBy f d (retag opts tag stored b)
        = map_sum id (retag opts tag stored) (QueryBuilder_orderBy f d b)"
    by (simp add: QueryBuilder_orderBy_def retag_def split: jsval.splits)
  show ?thesis
    using init new new_is_knex [of rt fy opts0 b0] exec first_retag [of b k rt opts tag stored]
      buildQuery_retag wh chain ob
    by simp
qed

theorem engine_tag_irrelevant_witness:
  "initAdapter sample_runtime sample_fastify (Str ''mysql'')
     = Inr (Knex \<lparr>ka_fastify = sample_fastify, ka_dbEngine = Str ''mysql'', ka_knex = sample_knex\<rparr>)
   \<and> QueryBuilder_toSQL
       (retag [(''dbEngine'', Str ''mysql'')] (Str ''mysql'') (Str ''mysql'')
          (QueryBuilder_from (Str ''users'') sql_builder))
     = Inr ''select * from users''
   \<and> QueryBuilder_get sample_runtime
       (retag [(''dbEngine'', Str ''mysql'')] (Str ''mysql'') (Str ''mysql'')
          (QueryBuilder_from (Str ''users'') sql_builder))
     = Inr (Arr sample_rows)"
proof -
  let ?b = "QueryBuilder_from (Str ''users'') sql_builder"
  let ?k = "\<lparr>ka_fastify = sample_fastify, ka_dbEngine = Str ''pg'', ka_knex = sample_knex\<rparr>"
  have ne: "Str ''mysql'' \<noteq> Str ''mongodb'' \<and> Str ''mysql'' \<noteq> Str ''mongo''" by simp
  have ad: "adapter ?b = Knex ?k" by (simp add: QueryBuilder_from_def sql_builder_def)
  have new: "KnexAdapter_new sample_runtime sample_fastify (Str ''mysql'')
     = Inr \<lparr>ka_fastify = sample_fastify, ka_dbEngine = Str ''mysql'', ka_knex = sample_knex\<rparr>"
    by (simp add: KnexAdapter_new_def sample_fastify_def decorator_name_def sample_runtime_def
        or_else_def)
  have sql: "QueryBuilder_toSQL ?b = Inr ''select * from users''"
    by (simp add: QueryBuilder_toSQL_def QueryBuilder_from_def sql_builder_def sample_knex_def
        KnexAdapter_buildQuery_def own_keys_def)
  have get: "QueryBuilder_get sample_runtime ?b = Inr (Arr sample_rows)" by code_simp
  note t = engine_tag_irrelevant
      [where engine = "Str ''mysql''" and rt = sample_runtime and fy = sample_fastify
         and engine' = "Str ''pg''" and b = ?b and k = ?k
         and opts = "[(''dbEngine'', Str ''mysql'')]" and tag = "Str ''mysql''"
         and stored = "Str ''mysql''"]
  have i: "initAdapter sample_runtime sample_fastify (Str ''mysql'')
      = map_sum id Knex (KnexAdapter_new sample_runtime sample_fastify (Str ''mysql''))"
    using t ne by blast
  have s: "QueryBuilder_toSQL (retag [(''dbEngine'', Str ''mysql'')] (Str ''mysql'') (Str ''mysql'') ?b)
      = QueryBuilder_toSQL ?b"
    using t ad by blast
  have g: "QueryBuilder_get sample_runtime
        (retag [(''dbEngine'', Str ''mysql'')] (Str ''mysql'') (Str ''mysql'') ?b)
      = QueryBuilder_get sample_runtime ?b"
    using t ad by blast
  show ?thesis using i new s sql g get by simp
qed

text \<open>
  C10. On a builder bound to the document adapter, \<open>count(f)\<close> returns what \<open>count()\<close> and
  \<open>count('*')\<close> return, for every \<open>f\<close> and every state of the builder: the adapter's count,
  which is the collection's count of the documents matching the filter built from the
  conditions.
\<close>

theorem count_ignores_field:
  "adapter b = Mongo a \<longrightarrow>
     QueryBuilder_count rt [f] b = QueryBuilder_count rt [] b
     \<and> QueryBuilder_count rt [f] b = QueryBuilder_count rt [Str ''*''] b
     \<and> QueryBuilder_count rt [f] b = MongoAdapter_count rt a b
     \<and> (getCollection a (collection b) = Inr coll
          \<and> MongoAdapter_buildFilter rt (conditions b) = Inr flt
          \<longrightarrow> QueryBuilder_count rt [f] b = coll_countDocuments coll flt)"
  by (simp add: QueryBuilder_count_def MongoAdapter_count_def)

theorem count_ignores_field_witness:
  "QueryBuilder_count sample_runtime [Str ''id''] (QueryBuilder_from (Str ''users'') mongo_builder)
     = QueryBuilder_count sample_runtime [] (QueryBuilder_from (Str ''users'') mongo_builder)
   \<and> QueryBuilder_count sample_runtime [Str ''id''] (QueryBuilder_from (Str ''users'') mongo_builder)
     = QueryBuilder_count sample_runtime [Str ''*''] (QueryBuilder_from (Str ''users'') mongo_builder)
   \<and> QueryBuilder_count sample_runtime [Str ''id''] (QueryBuilder_from (Str ''users'') mongo_builder)
     = Inr (Num 2)"
proof -
  let ?b = "QueryBuilder_from (Str ''users'') mongo_builder"
  let ?a = "\<lparr>ma_fastify = sample_fastify\<rparr>"
  have ad: "adapter ?b = Mongo ?a" by (simp add: QueryBuilder_from_def mongo_builder_def)
  have co: "getCollection ?a (collection ?b) = Inr sample_collection"
    by (simp add: getCollection_def sample_fastify_def)
  have fl: "MongoAdapter_buildFilter sample_runtime (conditions ?b) = Inr empty_object"
    by (simp add: MongoAdapter_buildFilter_def QueryBuilder_from_def mongo_builder_def)
  have n: "coll_countDocuments sample_collection empty_object = Inr (Num 2)"
    by (simp add: sample_collection_def empty_object_def empty_membership_def)
  show ?thesis
    using count_ignores_field [of ?b ?a sample_runtime "Str ''id''" sample_collection empty_object]
      ad co fl n
    by auto
qed

end
